theory Spec2Isabelle
  imports Complex_Main "HOL-Library.Char_ord" "HOL-Library.List_Lexorder" "HOL-Library.AList"
begin

section \<open>Python values and exceptions\<close>

text \<open>
  Exceptions of the Python sources are values: a computation that may raise returns
  \<open>py_exn + 'a\<close>, with \<open>Inl\<close> for the exception. Python floats are idealised as
  \<open>real\<close>; the American-odds prices, win indicators and dates the pipeline handles are
  small integers or fractions of them, where the idealisation is exact enough for every
  comparison made below.
\<close>

datatype py_exn =
    ValueError
  | ZeroDivisionError
  | KeyError string
  | FileNotFoundError string
  | HTTPException nat string

section \<open>Odds to probability (american_odds_to_prob, the same in train-ml-model-v2.py and -v3.py)\<close>

text \<open>
  The \<open>ml_home\<close> / \<open>ml_away\<close> columns are VARCHAR in \<open>odds_historical\<close>, and are
  NaN/None after a left join that found no odds row. A cell is therefore one of:
  \<^item> \<open>Missing\<close>: None or NaN, the values on which \<open>pd.isna\<close> is true;
  \<^item> \<open>Invalid\<close>: a value on which \<open>float(odds)\<close> raises (a text that is no number);
  \<^item> \<open>Price p\<close>: a number, or a text that \<open>float\<close> parses, with value \<open>p\<close>.
\<close>

datatype odds_cell = Missing | Invalid | Price real

definition py_float :: "odds_cell \<Rightarrow> py_exn + real" where
  "py_float odds = (case odds of Price p \<Rightarrow> Inr p | _ \<Rightarrow> Inl ValueError)"

definition py_truediv :: "real \<Rightarrow> real \<Rightarrow> py_exn + real" where
  "py_truediv a b = (if b = 0 then Inl ZeroDivisionError else Inr (a / b))"

definition isna :: "odds_cell \<Rightarrow> bool" where
  "isna odds = (case odds of Missing \<Rightarrow> True | _ \<Rightarrow> False)"

text \<open>The body of the \<open>try\<close> block.\<close>

definition odds_try_body :: "odds_cell \<Rightarrow> py_exn + real" where
  "odds_try_body odds =
     (case py_float odds of
        Inl e \<Rightarrow> Inl e
      | Inr p \<Rightarrow> if p > 0 then py_truediv 100 (p + 100)
                 else py_truediv (abs p) (abs p + 100))"

text \<open>
  The whole function: the \<open>isna\<close> test, then the \<open>try\<close> block whose bare
  \<open>except\<close> turns every exception into the result 0.5.
\<close>

definition american_odds_to_prob :: "odds_cell \<Rightarrow> py_exn + real" where
  "american_odds_to_prob odds =
     (if isna odds then Inr (1/2)
      else (case odds_try_body odds of Inl e \<Rightarrow> Inr (1/2) | Inr v \<Rightarrow> Inr v))"

section \<open>Strings (str.strip, str.upper, str.lower)\<close>

text \<open>
  Team tokens are ASCII texts. \<open>str.strip()\<close> removes the white space of Python at both
  ends (in ASCII: the codes 9 to 13 and 28 to 32); \<open>str.upper()\<close> and \<open>str.lower()\<close>
  change the letters a-z and A-Z and leave every other ASCII character as it is.
\<close>

definition isspace :: "char \<Rightarrow> bool" where
  "isspace c = (let n = (of_char c :: nat) in (9 \<le> n \<and> n \<le> 13) \<or> (28 \<le> n \<and> n \<le> 32))"

definition upper_char :: "char \<Rightarrow> char" where
  "upper_char c = (let n = (of_char c :: nat) in if 97 \<le> n \<and> n \<le> 122 then char_of (n - 32) else c)"

definition lower_char :: "char \<Rightarrow> char" where
  "lower_char c = (let n = (of_char c :: nat) in if 65 \<le> n \<and> n \<le> 90 then char_of (n + 32) else c)"

definition py_lstrip :: "string \<Rightarrow> string" where
  "py_lstrip s = dropWhile isspace s"

definition py_rstrip :: "string \<Rightarrow> string" where
  "py_rstrip s = rev (dropWhile isspace (rev s))"

definition py_strip :: "string \<Rightarrow> string" where
  "py_strip s = py_lstrip (py_rstrip s)"

definition py_upper :: "string \<Rightarrow> string" where
  "py_upper s = map upper_char s"

definition py_lower :: "string \<Rightarrow> string" where
  "py_lower s = map lower_char s"

section \<open>Team identity resolution (scripts/create-team-mapping.py, map_team_name)\<close>

text \<open>
  The dictionary display of \<open>TEAM_MAPPING\<close>, entry by entry in source order. The key
  \<open>'CHA'\<close> is written twice.
\<close>

definition TEAM_MAPPING_literal :: "(string \<times> string) list" where
  "TEAM_MAPPING_literal =
    [(''ATL'', ''Atlanta Hawks''),
     (''BOS'', ''Boston Celtics''),
     (''BRK'', ''Brooklyn Nets''),
     (''BKN'', ''Brooklyn Nets''),
     (''CHA'', ''Charlotte Hornets''),
     (''CHI'', ''Chicago Bulls''),
     (''CHO'', ''Charlotte Hornets''),
     (''CLE'', ''Cleveland Cavaliers''),
     (''DAL'', ''Dallas Mavericks''),
     (''DEN'', ''Denver Nuggets''),
     (''DET'', ''Detroit Pistons''),
     (''GSW'', ''Golden State Warriors''),
     (''HOU'', ''Houston Rockets''),
     (''IND'', ''Indiana Pacers''),
     (''LAC'', ''LA Clippers''),
     (''LAL'', ''Los Angeles Lakers''),
     (''MEM'', ''Memphis Grizzlies''),
     (''MIA'', ''Miami Heat''),
     (''MIL'', ''Milwaukee Bucks''),
     (''MIN'', ''Minnesota Timberwolves''),
     (''NOP'', ''New Orleans Pelicans''),
     (''NYK'', ''New York Knicks''),
     (''NYN'', ''New Jersey Nets''),
     (''OKC'', ''Oklahoma City Thunder''),
     (''ORL'', ''Orlando Magic''),
     (''PHI'', ''Philadelphia 76ers''),
     (''PHO'', ''Phoenix Suns''),
     (''PHX'', ''Phoenix Suns''),
     (''POR'', ''Portland Trail Blazers''),
     (''SAC'', ''Sacramento Kings''),
     (''SAS'', ''San Antonio Spurs''),
     (''TOR'', ''Toronto Raptors''),
     (''UTA'', ''Utah Jazz''),
     (''WAS'', ''Washington Wizards''),
     (''NJN'', ''New Jersey Nets''),
     (''NOH'', ''New Orleans Hornets''),
     (''CHA'', ''Charlotte Bobcats''),
     (''SEA'', ''Seattle SuperSonics''),
     (''VAN'', ''Vancouver Grizzlies''),
     (''KCK'', ''Kansas City Kings''),
     (''SDC'', ''San Diego Clippers'')]"

text \<open>
  A Python dict built from a sequence of items, as an association list in insertion order:
  a key already present keeps its position and takes the new value, a new key is appended.
  Lookup is \<open>map_of\<close>.
\<close>

definition py_dict :: "('k \<times> 'v) list \<Rightarrow> ('k \<times> 'v) list" where
  "py_dict items = foldl (\<lambda>d (k, v). AList.update k v d) [] items"

definition TEAM_MAPPING :: "(string \<times> string) list" where
  "TEAM_MAPPING = py_dict TEAM_MAPPING_literal"

text \<open>
  \<open>create_mapping_table\<close> inserts one row per item of the dict into the table
  \<open>team_mapping\<close>; the trainers read the table back as \<open>mapping_df\<close> and build
  \<open>team_map = dict(zip(abbreviation.str.upper(), full_name.str.lower()))\<close>.
\<close>

definition create_mapping_table :: "(string \<times> string) list" where
  "create_mapping_table = foldl (\<lambda>rows (abbr, name). rows @ [(abbr, name)]) [] TEAM_MAPPING"

definition build_team_map :: "(string \<times> string) list \<Rightarrow> (string \<times> string) list" where
  "build_team_map mapping_df = py_dict (zip (map (py_upper \<circ> fst) mapping_df) (map (py_lower \<circ> snd) mapping_df))"

definition team_map :: "(string \<times> string) list" where
  "team_map = build_team_map create_mapping_table"

text \<open>
  \<open>map_team_name\<close> of train-ml-model-v3.py. The parameter is rebound to its stripped,
  upper-cased form before the lookup, so the fallback lower-cases and strips that form.
\<close>

definition map_team_name :: "(string \<times> string) list \<Rightarrow> string \<Rightarrow> string" where
  "map_team_name tm team =
     (let team' = py_upper (py_strip team)
      in case map_of tm team' of
           Some full \<Rightarrow> full
         | None \<Rightarrow> py_strip (py_lower team'))"

text \<open>The value of \<open>team_map\<close>, written out (proved equal to it below).\<close>

definition team_map_concrete :: "(string \<times> string) list" where
  "team_map_concrete =
    [(''ATL'', ''atlanta hawks''), (''BOS'', ''boston celtics''), (''BRK'', ''brooklyn nets''),
     (''BKN'', ''brooklyn nets''), (''CHA'', ''charlotte bobcats''), (''CHI'', ''chicago bulls''),
     (''CHO'', ''charlotte hornets''), (''CLE'', ''cleveland cavaliers''),
     (''DAL'', ''dallas mavericks''), (''DEN'', ''denver nuggets''), (''DET'', ''detroit pistons''),
     (''GSW'', ''golden state warriors''), (''HOU'', ''houston rockets''),
     (''IND'', ''indiana pacers''), (''LAC'', ''la clippers''), (''LAL'', ''los angeles lakers''),
     (''MEM'', ''memphis grizzlies''), (''MIA'', ''miami heat''), (''MIL'', ''milwaukee bucks''),
     (''MIN'', ''minnesota timberwolves''), (''NOP'', ''new orleans pelicans''),
     (''NYK'', ''new york knicks''), (''NYN'', ''new jersey nets''),
     (''OKC'', ''oklahoma city thunder''), (''ORL'', ''orlando magic''),
     (''PHI'', ''philadelphia 76ers''), (''PHO'', ''phoenix suns''), (''PHX'', ''phoenix suns''),
     (''POR'', ''portland trail blazers''), (''SAC'', ''sacramento kings''),
     (''SAS'', ''san antonio spurs''), (''TOR'', ''toronto raptors''), (''UTA'', ''utah jazz''),
     (''WAS'', ''washington wizards''), (''NJN'', ''new jersey nets''),
     (''NOH'', ''new orleans hornets''), (''SEA'', ''seattle supersonics''),
     (''VAN'', ''vancouver grizzlies''), (''KCK'', ''kansas city kings''),
     (''SDC'', ''san diego clippers'')]"

section \<open>Game and odds records, joined rows (scripts/train-ml-model-v3.py, load_data)\<close>

text \<open>
  A row of \<open>games_df\<close> as \<open>load_data\<close> selects it and a row of \<open>odds_df\<close>. Dates are
  points on the time axis; dates, seasons and team tokens are present in every row (the
  nullable columns are the ratings, which \<open>load_data\<close> filters, and the odds values).
  \<open>home_win\<close> is the column the query computes:
  \<open>CASE WHEN home_score > away_score THEN 1 ELSE 0 END\<close>.
\<close>

record game =
  game_id :: string
  date :: real
  season :: int
  home_team :: string
  away_team :: string
  home_score :: int
  away_score :: int
  elo_home_before :: real
  elo_away_before :: real

definition home_win :: "game \<Rightarrow> real" where
  "home_win g = (if home_score g > away_score g then 1 else 0)"

record odds =
  odds_season :: int
  odds_date :: real
  odds_home_team :: string
  odds_away_team :: string
  spread :: "real option"
  over_under :: "real option"
  ml_home :: odds_cell
  ml_away :: odds_cell

text \<open>
  A row of the merged frame: the columns of the game and, where the join found one, the
  columns of an odds row (all NaN otherwise).
\<close>

record merged_row =
  row_game :: game
  row_odds :: "odds option"

section \<open>The join of games with odds (engineer_features)\<close>

text \<open>
  \<open>DataFrame.merge\<close> on key columns: every left row is paired with every right row of
  equal key, left rows in their order and, for one left row, the right rows in theirs.
  \<open>how='inner'\<close> drops a left row with no partner; \<open>how='left'\<close> keeps it once, with
  the right columns empty.
\<close>

definition merge_inner :: "(game \<Rightarrow> odds \<Rightarrow> bool) \<Rightarrow> game list \<Rightarrow> odds list \<Rightarrow> merged_row list" where
  "merge_inner on_keys games_df odds_df =
     concat (map (\<lambda>g. map (\<lambda>od. \<lparr>row_game = g, row_odds = Some od\<rparr>)
                           (filter (on_keys g) odds_df)) games_df)"

definition merge_left :: "(game \<Rightarrow> odds \<Rightarrow> bool) \<Rightarrow> game list \<Rightarrow> odds list \<Rightarrow> merged_row list" where
  "merge_left on_keys games_df odds_df =
     concat (map (\<lambda>g. case filter (on_keys g) odds_df of
                         [] \<Rightarrow> [\<lparr>row_game = g, row_odds = None\<rparr>]
                       | od # ods \<Rightarrow> map (\<lambda>od. \<lparr>row_game = g, row_odds = Some od\<rparr>) (od # ods))
                 games_df)"

text \<open>
  The key columns. V3 resolves the game's tokens with \<open>map_team_name\<close>; V2 looks the raw
  token up in \<open>team_map\<close> (\<open>Series.map(team_map)\<close>, NaN for a token that is no key).
  Both strip and lower-case the odds row's team names.
\<close>

definition home_team_clean :: "odds \<Rightarrow> string" where
  "home_team_clean od = py_lower (py_strip (odds_home_team od))"

definition away_team_clean :: "odds \<Rightarrow> string" where
  "away_team_clean od = py_lower (py_strip (odds_away_team od))"

definition keys_v3 :: "game \<Rightarrow> odds \<Rightarrow> bool" where
  "keys_v3 g od \<longleftrightarrow>
     season g = odds_season od
     \<and> map_team_name team_map (home_team g) = home_team_clean od
     \<and> map_team_name team_map (away_team g) = away_team_clean od"

definition keys_v2 :: "game \<Rightarrow> odds \<Rightarrow> bool" where
  "keys_v2 g od \<longleftrightarrow>
     season g = odds_season od
     \<and> map_of team_map (home_team g) = Some (home_team_clean od)
     \<and> map_of team_map (away_team g) = Some (away_team_clean od)"

definition merge_v3 :: "game list \<Rightarrow> odds list \<Rightarrow> merged_row list" where
  "merge_v3 games_df odds_df = merge_inner keys_v3 games_df odds_df"

definition merge_v2 :: "game list \<Rightarrow> odds list \<Rightarrow> merged_row list" where
  "merge_v2 games_df odds_df = merge_left keys_v2 games_df odds_df"

section \<open>Rolling form (engineer_features)\<close>

text \<open>
  The pandas operations of
  \<open>merged.groupby('home_team')['home_win'].transform(lambda x:
     x.shift(1).rolling(window=10, min_periods=1).mean()).fillna(0.5)\<close>.
  \<open>None\<close> is NaN.

  \<^item> \<open>shift1\<close>: \<open>Series.shift(1)\<close> puts NaN first and drops the last value.
  \<^item> \<open>rolling_mean window min_periods\<close>: at position \<open>k\<close> the window is the last
    \<open>window\<close> values up to and including \<open>k\<close>; the result is the mean of its values
    that are not NaN, or NaN when there are fewer than \<open>min_periods\<close> of them (or none).
  \<^item> \<open>groupby_transform key col f\<close>: every row gets, from \<open>f\<close> applied to the column
    \<open>col\<close> of the rows of its group (in frame order), the value at its own position in
    the group.
  \<^item> \<open>fillna d\<close> replaces NaN by \<open>d\<close>.
\<close>

definition shift1 :: "'a list \<Rightarrow> 'a option list" where
  "shift1 xs = take (length xs) (None # map Some xs)"

primrec dropna :: "'a option list \<Rightarrow> 'a list" where
  "dropna [] = []"
| "dropna (x # xs) = (case x of None \<Rightarrow> dropna xs | Some v \<Rightarrow> v # dropna xs)"

definition mean :: "real list \<Rightarrow> real" where
  "mean vs = sum_list vs / real (length vs)"

definition rolling_mean :: "nat \<Rightarrow> nat \<Rightarrow> real option list \<Rightarrow> real option list" where
  "rolling_mean window min_periods xs =
     map (\<lambda>k. let obs = dropna (drop (Suc k - window) (take (Suc k) xs))
              in if min_periods \<le> length obs \<and> obs \<noteq> [] then Some (mean obs) else None)
         [0..<length xs]"

definition fillna :: "'a \<Rightarrow> 'a option list \<Rightarrow> 'a list" where
  "fillna d xs = map (\<lambda>x. case x of None \<Rightarrow> d | Some v \<Rightarrow> v) xs"

definition groupby_transform ::
  "('r \<Rightarrow> 'k) \<Rightarrow> ('r \<Rightarrow> 'v) \<Rightarrow> ('v list \<Rightarrow> 'w list) \<Rightarrow> 'r list \<Rightarrow> 'w list" where
  "groupby_transform key col f rows =
     map (\<lambda>i. let grp = filter (\<lambda>r. key r = key (rows ! i)) rows;
                  pos = length (filter (\<lambda>r. key r = key (rows ! i)) (take i rows))
              in f (map col grp) ! pos)
         [0..<length rows]"

definition home_last10_wins :: "merged_row list \<Rightarrow> real list" where
  "home_last10_wins merged =
     fillna (1/2) (groupby_transform (home_team \<circ> row_game) (home_win \<circ> row_game)
                     (\<lambda>x. rolling_mean 10 1 (shift1 x)) merged)"

definition away_last10_wins :: "merged_row list \<Rightarrow> real list" where
  "away_last10_wins merged =
     fillna (1/2) (groupby_transform (away_team \<circ> row_game) (home_win \<circ> row_game)
                     (\<lambda>x. rolling_mean 10 1 (shift1 (map (\<lambda>v. 1 - v) x))) merged)"

text \<open>
  The spec's words for the same feature, to compare with: the mean of the team's last
  10 results before the current game, 0.5 when there is none.
\<close>

definition spec_rolling_form :: "real list \<Rightarrow> real" where
  "spec_rolling_form prior =
     (if prior = [] then 1/2 else mean (drop (length prior - 10) prior))"

text \<open>The team's earlier home results, and its earlier away results, before row \<open>i\<close>.\<close>

definition prior_home_results :: "merged_row list \<Rightarrow> nat \<Rightarrow> real list" where
  "prior_home_results merged i =
     map (home_win \<circ> row_game)
       (filter (\<lambda>r. home_team (row_game r) = home_team (row_game (merged ! i))) (take i merged))"

definition prior_away_results :: "merged_row list \<Rightarrow> nat \<Rightarrow> real list" where
  "prior_away_results merged i =
     map (\<lambda>r. 1 - home_win (row_game r))
       (filter (\<lambda>r. away_team (row_game r) = away_team (row_game (merged ! i))) (take i merged))"

text \<open>Concrete rows for the examples below.\<close>

definition ex_game :: game where
  "ex_game = \<lparr>game_id = ''g1'', date = 1, season = 2020, home_team = ''LAL'',
     away_team = ''BOS'', home_score = 100, away_score = 90,
     elo_home_before = 1500, elo_away_before = 1500\<rparr>"

definition ex_odds :: odds where
  "ex_odds = \<lparr>odds_season = 2020, odds_date = 1, odds_home_team = ''Los Angeles Lakers'',
     odds_away_team = ''Boston Celtics'', spread = Some (-4), over_under = Some 215,
     ml_home = Price (-180), ml_away = Price 150\<rparr>"

definition ex_odds2 :: odds where
  "ex_odds2 = ex_odds\<lparr>odds_date := 40, spread := Some 2, ml_home := Price 120,
     ml_away := Price (-140)\<rparr>"

definition ex_row :: "real \<Rightarrow> string \<Rightarrow> string \<Rightarrow> int \<Rightarrow> int \<Rightarrow> merged_row" where
  "ex_row d h a hs aws =
     \<lparr>row_game = ex_game\<lparr>date := d, home_team := h, away_team := a,
                           home_score := hs, away_score := aws\<rparr>,
      row_odds = None\<rparr>"

definition ex_rows :: "merged_row list" where
  "ex_rows = [ex_row 1 ''LAL'' ''BOS'' 100 90, ex_row 2 ''LAL'' ''NYK'' 80 90,
              ex_row 3 ''LAL'' ''BOS'' 110 90]"

section \<open>Temporal split and training run (train_model, train_2025_model, run)\<close>

text \<open>
  \<open>Series.quantile(q)\<close> with the default linear interpolation: on the sorted values, the
  value at the fractional position \<open>(n - 1) * q\<close>. NaN (\<open>None\<close>) for an empty series.
\<close>

definition quantile :: "real \<Rightarrow> real list \<Rightarrow> real option" where
  "quantile q xs =
     (if xs = [] then None
      else let s = sort xs;
               h = real (length xs - 1) * q;
               lo = nat \<lfloor>h\<rfloor>;
               hi = nat \<lceil>h\<rceil>
           in Some (s ! lo + (h - real lo) * (s ! hi - s ! lo)))"

text \<open>
  The time-based split of \<open>train_model\<close>:
  \<open>split_date = model_data['date'].quantile(0.8)\<close>, then the rows with
  \<open>date < split_date\<close> and the rows with \<open>date >= split_date\<close>. Every comparison with
  the NaN cutoff of an empty frame is false.
\<close>

definition temporal_split :: "merged_row list \<Rightarrow> merged_row list \<times> merged_row list" where
  "temporal_split model_data =
     (case quantile (4/5) (map (date \<circ> row_game) model_data) of
        None \<Rightarrow> ([], [])
      | Some split_date \<Rightarrow>
          (filter (\<lambda>r. date (row_game r) < split_date) model_data,
           filter (\<lambda>r. date (row_game r) \<ge> split_date) model_data))"

text \<open>
  What a training run does, as a trace. \<open>Fitted name n k\<close>: for the family \<open>name\<close>,
  whose data has \<open>n\<close> rows, \<open>scaler.fit_transform\<close> and \<open>model.fit\<close> are called on the
  \<open>k\<close> training rows. \<open>StandardScaler\<close> raises ValueError on an empty training set.
  The evaluation and the saving that follow the fit are not part of the trace.
\<close>

datatype training_event =
    Insufficient_samples nat
  | Fitted string nat nat
  | Training_complete
  | Raised py_exn

definition train_model :: "string \<Rightarrow> merged_row list \<Rightarrow> py_exn + training_event" where
  "train_model model_name model_data =
     (let (train_data, test_data) = temporal_split model_data
      in if train_data = [] then Inl ValueError
         else Inr (Fitted model_name (length model_data) (length train_data)))"

text \<open>\<open>merged.sort_values('date')\<close>; rows of equal date are kept in their order here.\<close>

definition sort_values_date :: "merged_row list \<Rightarrow> merged_row list" where
  "sort_values_date merged = sort_key (date \<circ> row_game) merged"

text \<open>
  The rows of \<open>model_data\<close> that \<open>engineer_features\<close> of V3 returns; its feature columns
  (among them \<open>home_last10_wins\<close> and \<open>away_last10_wins\<close>) are computed from these rows.
\<close>

definition engineer_features_v3 :: "game list \<Rightarrow> odds list \<Rightarrow> merged_row list" where
  "engineer_features_v3 games_df odds_df = sort_values_date (merge_v3 games_df odds_df)"

definition recent_seasons :: "int list" where
  "recent_seasons = [2019, 2020, 2021, 2022, 2023]"

definition train_2025_model :: "game list \<Rightarrow> odds list \<Rightarrow> py_exn + training_event" where
  "train_2025_model games_df odds_df =
     (let games_recent = filter (\<lambda>g. season g \<in> set recent_seasons) games_df;
          odds_recent = filter (\<lambda>od. odds_season od \<in> set recent_seasons) odds_df;
          merged = sort_values_date (merge_v3 games_recent odds_recent)
      in train_model ''2025'' merged)"

text \<open>
  \<open>run\<close>: the row-count check, then the global model, then the 2025 model. An exception
  ends the run.
\<close>

definition run :: "game list \<Rightarrow> odds list \<Rightarrow> training_event list" where
  "run games_df odds_df =
     (let model_data = engineer_features_v3 games_df odds_df
      in if length model_data < 1000 then [Insufficient_samples (length model_data)]
         else (case train_model ''global'' model_data of
                 Inl e \<Rightarrow> [Raised e]
               | Inr fitted_global \<Rightarrow>
                   (case train_2025_model games_df odds_df of
                      Inl e \<Rightarrow> [fitted_global, Raised e]
                    | Inr fitted_2025 \<Rightarrow> [fitted_global, fitted_2025, Training_complete])))"

text \<open>
  A data set for the examples: 990 games of season 2015 on the days 0 to 989 and 10 games
  of season 2019 on the days 1000 to 1009, each with one odds row of its season.
\<close>

definition game_on :: "int \<Rightarrow> real \<Rightarrow> game" where
  "game_on s d = ex_game\<lparr>date := d, season := s\<rparr>"



definition ex_data5 :: "merged_row list" where
  "ex_data5 = map (\<lambda>d. \<lparr>row_game = game_on 2020 d, row_odds = None\<rparr>) [3, 1, 5, 2, 4]"

definition ex_row_on :: "int \<Rightarrow> real \<Rightarrow> merged_row" where
  "ex_row_on s d = \<lparr>row_game = game_on s d, row_odds = Some (ex_odds\<lparr>odds_season := s\<rparr>)\<rparr>"

section \<open>Artifact files and their selection (train_model, predict-games-v3.py load_model)\<close>
















section \<open>Inference service (python-service/app.py)\<close>

text \<open>
  A loaded classifier and a loaded scaler, as what they compute on one feature row:
  \<open>predict\<close> gives the class, \<open>predict_proba\<close> the probability of a home win,
  and a scaler transforms the row. The registry is the pair of the global dicts
  \<open>MODELS\<close> and \<open>SCALERS\<close>, filled by \<open>load_models\<close> at startup.
\<close>

record classifier =
  predict :: "real list \<Rightarrow> int"
  predict_proba :: "real list \<Rightarrow> real"

type_synonym scaler = "real list \<Rightarrow> real list"

record registry =
  MODELS :: "string \<rightharpoonup> classifier"
  SCALERS :: "string \<rightharpoonup> scaler"

text \<open>
  Requests and responses. A game of a batch request is a dict; its entry
  \<open>'features'\<close> is a dict from feature names to numbers. The measured latency of the
  responses is left out.
\<close>

record predict_request =
  model_type :: string
  games :: "(string \<rightharpoonup> (string \<rightharpoonup> real)) list"

record predict_response =
  response_model_type :: string
  predictions :: "int list"
  probabilities :: "real list"
  confidence :: "real list"

record single_predict_request =
  single_model_type :: string
  features :: "real list"

record single_predict_response =
  prediction :: int
  home_win_probability :: real
  single_confidence :: real

definition feature_order :: "string list" where
  "feature_order =
     [''elo_diff'', ''elo_diff_norm'', ''home_last10_wins'', ''away_last10_wins'',
      ''spread_num'', ''over_under'', ''ml_home_prob'', ''ml_away_prob'',
      ''rest_days_home'', ''rest_days_away'', ''season_norm'']"

text \<open>\<open>d[k]\<close> on a dict raises KeyError for a missing key.\<close>

definition getitem :: "(string \<rightharpoonup> 'v) \<Rightarrow> string \<Rightarrow> py_exn + 'v" where
  "getitem d k = (case d k of None \<Rightarrow> Inl (KeyError k) | Some v \<Rightarrow> Inr v)"

text \<open>A list comprehension whose element expression may raise: the first exception ends it.\<close>

fun collect :: "('a \<Rightarrow> py_exn + 'b) \<Rightarrow> 'a list \<Rightarrow> py_exn + 'b list" where
  "collect f [] = Inr []"
| "collect f (x # xs) =
     (case f x of
        Inl e \<Rightarrow> Inl e
      | Inr y \<Rightarrow> (case collect f xs of Inl e \<Rightarrow> Inl e | Inr ys \<Rightarrow> Inr (y # ys)))"

definition game_row :: "(string \<rightharpoonup> (string \<rightharpoonup> real)) \<Rightarrow> py_exn + real list" where
  "game_row g =
     (case getitem g ''features'' of
        Inl e \<Rightarrow> Inl e
      | Inr fs \<Rightarrow> collect (getitem fs) feature_order)"

text \<open>
  \<open>round(x, 4)\<close>: to four decimals, a tie going to the even digit.
\<close>

definition py_round4 :: "real \<Rightarrow> real" where
  "py_round4 x =
     (let y = x * 10000; f = \<lfloor>y\<rfloor>; d = y - of_int f
      in of_int (if d < 1/2 then f else if d > 1/2 then f + 1
                 else if even f then f else f + 1) / 10000)"

text \<open>
  The two handlers. Each returns its response, or the exception it raises, together with
  the registry as the handler leaves it. An empty batch makes \<open>np.array\<close> one-dimensional,
  which \<open>scaler.transform\<close> rejects with ValueError.
\<close>

definition predict_batch ::
  "registry \<Rightarrow> predict_request \<Rightarrow> (py_exn + predict_response) \<times> registry" where
  "predict_batch reg request =
     (if model_type request \<notin> dom (MODELS reg)
      then (Inl (HTTPException 400 (''Model '' @ model_type request @ '' not found'')), reg)
      else
        (case getitem (MODELS reg) (model_type request) of
           Inl e \<Rightarrow> (Inl e, reg)
         | Inr model \<Rightarrow>
        (case getitem (SCALERS reg) (model_type request) of
           Inl e \<Rightarrow> (Inl e, reg)
         | Inr scaler \<Rightarrow>
        (case collect game_row (games request) of
           Inl e \<Rightarrow> (Inl e, reg)
         | Inr X \<Rightarrow>
             if X = [] then (Inl ValueError, reg)
             else
               let X_scaled = map scaler X;
                   home_probs = map (predict_proba model) X_scaled
               in (Inr \<lparr>response_model_type = model_type request,
                         predictions = map (predict model) X_scaled,
                         probabilities = home_probs,
                         confidence = map (\<lambda>p. \<bar>p - 1/2\<bar> * 2) home_probs\<rparr>, reg)))))"

definition predict_single ::
  "registry \<Rightarrow> single_predict_request \<Rightarrow> (py_exn + single_predict_response) \<times> registry" where
  "predict_single reg request =
     (if single_model_type request \<notin> dom (MODELS reg)
      then (Inl (HTTPException 400 (''Model '' @ single_model_type request @ '' not found'')), reg)
      else
        (case getitem (MODELS reg) (single_model_type request) of
           Inl e \<Rightarrow> (Inl e, reg)
         | Inr model \<Rightarrow>
        (case getitem (SCALERS reg) (single_model_type request) of
           Inl e \<Rightarrow> (Inl e, reg)
         | Inr scaler \<Rightarrow>
             let X_scaled = scaler (features request);
                 home_prob = predict_proba model X_scaled
             in (Inr \<lparr>prediction = predict model X_scaled,
                       home_win_probability = py_round4 home_prob,
                       single_confidence = py_round4 (\<bar>home_prob - 1/2\<bar> * 2)\<rparr>, reg))))"

text \<open>A registry with the global family only, for the examples.\<close>

definition ex_classifier :: classifier where
  "ex_classifier = \<lparr>predict = (\<lambda>x. 1), predict_proba = (\<lambda>x. 3/4)\<rparr>"

definition ex_registry :: registry where
  "ex_registry = \<lparr>MODELS = [''global'' \<mapsto> ex_classifier], SCALERS = [''global'' \<mapsto> (\<lambda>x. x)]\<rparr>"

definition ex_features :: "string \<rightharpoonup> real" where
  "ex_features = map_of (map (\<lambda>f. (f, 0)) feature_order)"

section \<open>Properties of the odds conversion\<close>







text \<open>
  C10. A price that is present and exactly 0 takes the non-positive branch and gives
  \<open>|0| / (|0| + 100) = 0\<close>: not the 0.5 of a missing price, and not a value strictly
  between 0 and 1.
\<close>

theorem american_odds_to_prob_zero:
  "american_odds_to_prob (Price 0) = Inr 0
   \<and> american_odds_to_prob (Price 0) \<noteq> american_odds_to_prob Missing
   \<and> \<not> (\<exists>v. american_odds_to_prob (Price 0) = Inr v \<and> 0 < v \<and> v < 1)"
  by (simp add: american_odds_to_prob_def isna_def odds_try_body_def py_float_def
      py_truediv_def)

section \<open>Properties of the string functions\<close>

lemma of_char_upper: "(of_char (upper_char c) :: nat) = (let n = of_char c in if 97 \<le> n \<and> n \<le> 122 then n - 32 else n)"
  by (auto simp: upper_char_def Let_def)

lemma of_char_lower: "(of_char (lower_char c) :: nat) = (let n = of_char c in if 65 \<le> n \<and> n \<le> 90 then n + 32 else n)"
  by (auto simp: lower_char_def Let_def)

lemma char_eq_of_char: "(c = d) = ((of_char c :: nat) = of_char d)"
  by simp

lemma isspace_upper_char [simp]: "isspace (upper_char c) = isspace c"
  by (auto simp: isspace_def of_char_upper Let_def)

lemma isspace_lower_char [simp]: "isspace (lower_char c) = isspace c"
  by (auto simp: isspace_def of_char_lower Let_def)

lemma upper_lower_char [simp]: "upper_char (lower_char c) = upper_char c"
  by (subst char_eq_of_char) (auto simp: of_char_upper of_char_lower Let_def)

lemma lower_upper_char [simp]: "lower_char (upper_char c) = lower_char c"
  by (subst char_eq_of_char) (auto simp: of_char_upper of_char_lower Let_def)

lemma upper_upper_char [simp]: "upper_char (upper_char c) = upper_char c"
  by (subst char_eq_of_char) (auto simp: of_char_upper of_char_lower Let_def)

lemma lower_lower_char [simp]: "lower_char (lower_char c) = lower_char c"
  by (subst char_eq_of_char) (auto simp: of_char_upper of_char_lower Let_def)

lemma py_rstrip_Nil [simp]: "py_rstrip [] = []"
  by (simp add: py_rstrip_def)

lemma py_rstrip_empty_iff: "py_rstrip s = [] \<longleftrightarrow> (\<forall>c\<in>set s. isspace c)"
  by (simp add: py_rstrip_def)

lemma py_rstrip_Cons:
  "py_rstrip (c # s) = (if isspace c \<and> py_rstrip s = [] then [] else c # py_rstrip s)"
  by (auto simp: py_rstrip_empty_iff) (auto simp: py_rstrip_def dropWhile_append)

lemma lstrip_rstrip_commute: "py_lstrip (py_rstrip s) = py_rstrip (py_lstrip s)"
  by (induction s) (auto simp: py_rstrip_Cons py_lstrip_def)

lemma py_lstrip_idem: "py_lstrip (py_lstrip s) = py_lstrip s"
  by (simp add: py_lstrip_def)

lemma py_rstrip_idem: "py_rstrip (py_rstrip s) = py_rstrip s"
  by (simp add: py_rstrip_def)

lemma py_strip_idem [simp]: "py_strip (py_strip s) = py_strip s"
proof -
  have "py_strip (py_strip s) = py_lstrip (py_lstrip (py_rstrip (py_rstrip s)))"
    by (simp add: py_strip_def lstrip_rstrip_commute)
  then show ?thesis by (simp add: py_strip_def py_lstrip_idem py_rstrip_idem)
qed

lemma dropWhile_isspace_map:
  assumes "\<And>c. isspace (f c) = isspace c"
  shows "dropWhile isspace (map f s) = map f (dropWhile isspace s)"
  using assms by (induction s) auto

lemma py_strip_map:
  assumes "\<And>c. isspace (f c) = isspace c"
  shows "py_strip (map f s) = map f (py_strip s)"
  using assms
  by (simp add: py_strip_def py_lstrip_def py_rstrip_def dropWhile_isspace_map rev_map)

lemma py_strip_upper [simp]: "py_strip (py_upper s) = py_upper (py_strip s)"
  by (simp add: py_upper_def py_strip_map)

lemma py_strip_lower [simp]: "py_strip (py_lower s) = py_lower (py_strip s)"
  by (simp add: py_lower_def py_strip_map)

lemma py_case_simps [simp]:
  "py_upper (py_lower s) = py_upper s" "py_lower (py_upper s) = py_lower s"
  "py_upper (py_upper s) = py_upper s" "py_lower (py_lower s) = py_lower s"
  by (simp_all add: py_upper_def py_lower_def)

section \<open>Properties of team identity resolution\<close>

lemma py_dict_last_wins_aux:
  "map_of (foldl (\<lambda>d (k, v). AList.update k v d) d items) = map_of d ++ map_of (rev items)"
  by (induction items arbitrary: d) (auto simp: update_conv' map_add_upd_left fun_eq_iff map_add_def split: option.splits)

lemma upper_char_table:
  "map upper_char ''abcdefghijklmnopqrstuvwxyz'' = ''ABCDEFGHIJKLMNOPQRSTUVWXYZ''"
  "map upper_char ''ABCDEFGHIJKLMNOPQRSTUVWXYZ 0123456789'' = ''ABCDEFGHIJKLMNOPQRSTUVWXYZ 0123456789''"
  by (simp_all add: upper_char_def char_of_eq_iff take_bit_eq_mod)

lemma lower_char_table:
  "map lower_char ''ABCDEFGHIJKLMNOPQRSTUVWXYZ'' = ''abcdefghijklmnopqrstuvwxyz''"
  "map lower_char ''abcdefghijklmnopqrstuvwxyz 0123456789'' = ''abcdefghijklmnopqrstuvwxyz 0123456789''"
  by (simp_all add: lower_char_def char_of_eq_iff take_bit_eq_mod)

lemma isspace_table:
  "list_all (\<lambda>c. \<not> isspace c) ''abcdefghijklmnopqrstuvwxyzABCDEFGHIJKLMNOPQRSTUVWXYZ0123456789''"
  "isspace CHR '' ''"
  by (simp_all add: isspace_def)

lemmas char_evals =
  upper_char_table [simplified] lower_char_table [simplified] isspace_table [simplified]

lemmas str_evals =
  py_strip_def py_lstrip_def py_rstrip_def py_upper_def py_lower_def char_evals

lemma TEAM_MAPPING_eval:
  "TEAM_MAPPING =
    [(''ATL'', ''Atlanta Hawks''), (''BOS'', ''Boston Celtics''), (''BRK'', ''Brooklyn Nets''),
     (''BKN'', ''Brooklyn Nets''), (''CHA'', ''Charlotte Bobcats''), (''CHI'', ''Chicago Bulls''),
     (''CHO'', ''Charlotte Hornets''), (''CLE'', ''Cleveland Cavaliers''),
     (''DAL'', ''Dallas Mavericks''), (''DEN'', ''Denver Nuggets''), (''DET'', ''Detroit Pistons''),
     (''GSW'', ''Golden State Warriors''), (''HOU'', ''Houston Rockets''),
     (''IND'', ''Indiana Pacers''), (''LAC'', ''LA Clippers''), (''LAL'', ''Los Angeles Lakers''),
     (''MEM'', ''Memphis Grizzlies''), (''MIA'', ''Miami Heat''), (''MIL'', ''Milwaukee Bucks''),
     (''MIN'', ''Minnesota Timberwolves''), (''NOP'', ''New Orleans Pelicans''),
     (''NYK'', ''New York Knicks''), (''NYN'', ''New Jersey Nets''),
     (''OKC'', ''Oklahoma City Thunder''), (''ORL'', ''Orlando Magic''),
     (''PHI'', ''Philadelphia 76ers''), (''PHO'', ''Phoenix Suns''), (''PHX'', ''Phoenix Suns''),
     (''POR'', ''Portland Trail Blazers''), (''SAC'', ''Sacramento Kings''),
     (''SAS'', ''San Antonio Spurs''), (''TOR'', ''Toronto Raptors''), (''UTA'', ''Utah Jazz''),
     (''WAS'', ''Washington Wizards''), (''NJN'', ''New Jersey Nets''),
     (''NOH'', ''New Orleans Hornets''), (''SEA'', ''Seattle SuperSonics''),
     (''VAN'', ''Vancouver Grizzlies''), (''KCK'', ''Kansas City Kings''),
     (''SDC'', ''San Diego Clippers'')]"
  by code_simp

lemma team_map_zip_eval:
  "zip (map (py_upper \<circ> fst) TEAM_MAPPING) (map (py_lower \<circ> snd) TEAM_MAPPING) = team_map_concrete"
  by (simp add: TEAM_MAPPING_eval team_map_concrete_def py_upper_def py_lower_def char_evals)

lemma py_dict_team_map_concrete: "py_dict team_map_concrete = team_map_concrete"
  by code_simp

lemma create_mapping_table_eq: "create_mapping_table = TEAM_MAPPING"
proof -
  have "foldl (\<lambda>rows (abbr, name). rows @ [(abbr, name)]) acc xs = acc @ xs"
    for acc xs :: "(string \<times> string) list"
    by (induction xs arbitrary: acc) auto
  then show ?thesis by (simp add: create_mapping_table_def)
qed

lemma team_map_eval: "team_map = team_map_concrete"
  by (simp add: team_map_def build_team_map_def create_mapping_table_eq team_map_zip_eval
      py_dict_team_map_concrete)







lemma py_dict_last_wins: "map_of (py_dict items) k = map_of (rev items) k"
  by (simp add: py_dict_def py_dict_last_wins_aux)

text \<open>
  C9. An alias entered more than once resolves to the entry written last: in a dict built
  from items, lookup finds the last item with that key. \<open>'CHA'\<close> is entered for
  Charlotte Hornets and, later, for Charlotte Bobcats; the table maps it to
  \<open>'Charlotte Bobcats'\<close>, and \<open>map_team_name\<close> returns that name (lower-cased, as every
  resolved name is), never the Hornets.
\<close>

theorem CHA_resolves_to_last:
  "(\<forall>items :: (string \<times> string) list. \<forall>k. map_of (py_dict items) k = map_of (rev items) k)
   \<and> filter (\<lambda>(k, v). k = ''CHA'') TEAM_MAPPING_literal
       = [(''CHA'', ''Charlotte Hornets''), (''CHA'', ''Charlotte Bobcats'')]
   \<and> map_of TEAM_MAPPING ''CHA'' = Some ''Charlotte Bobcats''
   \<and> map_team_name team_map ''CHA'' = py_lower ''Charlotte Bobcats''
   \<and> map_team_name team_map ''CHA'' = ''charlotte bobcats''
   \<and> map_team_name team_map ''CHA'' \<noteq> py_lower ''Charlotte Hornets''"
proof -
  have last_wins: "map_of (py_dict items) k = map_of (rev items) k"
    for items :: "(string \<times> string) list" and k
    by (simp add: py_dict_def py_dict_last_wins_aux)
  have entries: "filter (\<lambda>(k, v). k = ''CHA'') TEAM_MAPPING_literal
       = [(''CHA'', ''Charlotte Hornets''), (''CHA'', ''Charlotte Bobcats'')]"
    by (simp add: TEAM_MAPPING_literal_def)
  have table: "map_of TEAM_MAPPING ''CHA'' = Some ''Charlotte Bobcats''"
    by (simp add: TEAM_MAPPING_eval)
  have resolved: "map_team_name team_map ''CHA'' = ''charlotte bobcats''"
    by (simp add: team_map_eval team_map_concrete_def map_team_name_def str_evals)
  have lowered: "py_lower ''Charlotte Bobcats'' = ''charlotte bobcats''"
    "py_lower ''Charlotte Hornets'' = ''charlotte hornets''"
    by (simp_all add: py_lower_def char_evals)
  from last_wins entries table resolved lowered show ?thesis by simp
qed

section \<open>Properties of the rolling form\<close>

lemma dropna_map_Some [simp]: "dropna (map Some xs) = xs"
  by (induction xs) auto

lemma take_Suc_shift1:
  "k < length xs \<Longrightarrow> take (Suc k) (shift1 xs) = None # map Some (take k xs)"
  by (simp add: shift1_def take_map min_def)

lemma length_shift1 [simp]: "length (shift1 xs) = length xs"
  by (simp add: shift1_def)

lemma dropna_window:
  assumes "0 < w"
  shows "dropna (drop (Suc k - w) (None # map Some zs)) = drop (k - w) zs"
proof (cases "Suc k \<le> w")
  case True
  then show ?thesis by simp
next
  case False
  then have "Suc k - w = Suc (k - w)" using assms by simp
  then show ?thesis by (simp add: drop_map)
qed

lemma rolling_mean_shift1_nth:
  assumes "k < length xs"
  shows "rolling_mean 10 1 (shift1 xs) ! k =
           (if k = 0 then None else Some (mean (drop (k - 10) (take k xs))))"
proof -
  have "dropna (drop (Suc k - 10) (take (Suc k) (shift1 xs))) = drop (k - 10) (take k xs)"
    using assms dropna_window [of 10 k "take k xs"] by (simp add: take_Suc_shift1)
  moreover have "drop (k - 10) (take k xs) = [] \<longleftrightarrow> k = 0"
    using assms by auto
  ultimately show ?thesis
    using assms by (simp add: rolling_mean_def Let_def Suc_le_eq)
qed

lemma filter_take_prefix:
  assumes "i < length rows"
  shows "filter P rows = filter P (take i rows) @ filter P (drop i rows)"
  by (metis append_take_drop_id filter_append)

lemma filter_take_length_less:
  assumes "i < length rows" "P (rows ! i)"
  shows "length (filter P (take i rows)) < length (filter P rows)"
proof -
  from assms have "filter P (drop i rows) \<noteq> []"
    by (simp add: Cons_nth_drop_Suc [symmetric])
  then have "length (filter P (take i rows))
      < length (filter P (take i rows) @ filter P (drop i rows))" by simp
  then show ?thesis by (simp only: filter_take_prefix [OF assms(1), symmetric])
qed

lemma take_filter_take:
  assumes "i < length rows"
  shows "take (length (filter P (take i rows))) (filter P rows) = filter P (take i rows)"
proof -
  have "take (length (filter P (take i rows))) (filter P (take i rows) @ filter P (drop i rows))
      = filter P (take i rows)" by simp
  then show ?thesis by (simp only: filter_take_prefix [OF assms, symmetric])
qed

lemma groupby_rolling_nth:
  assumes "i < length rows"
  shows "groupby_transform key col (\<lambda>x. rolling_mean 10 1 (shift1 (map g x))) rows ! i =
           (let prior = map (g \<circ> col) (filter (\<lambda>r. key r = key (rows ! i)) (take i rows))
            in if prior = [] then None else Some (mean (drop (length prior - 10) prior)))"
proof -
  let ?P = "\<lambda>r. key r = key (rows ! i)"
  let ?pos = "length (filter ?P (take i rows))"
  let ?grp = "map g (map col (filter ?P rows))"
  have pos: "?pos < length ?grp"
    using filter_take_length_less [of i rows ?P] assms by simp
  have prior: "take ?pos ?grp = map (g \<circ> col) (filter ?P (take i rows))"
    by (simp only: map_map take_map take_filter_take [OF assms])
  have "groupby_transform key col (\<lambda>x. rolling_mean 10 1 (shift1 (map g x))) rows ! i
        = rolling_mean 10 1 (shift1 ?grp) ! ?pos"
    using assms by (simp add: groupby_transform_def Let_def)
  also have "\<dots> = (if ?pos = 0 then None else Some (mean (drop (?pos - 10) (take ?pos ?grp))))"
    by (rule rolling_mean_shift1_nth [OF pos])
  finally show ?thesis
    by (simp only: prior Let_def) (simp cong: if_cong)
qed

lemma home_last10_wins_nth:
  assumes "i < length merged"
  shows "home_last10_wins merged ! i = spec_rolling_form (prior_home_results merged i)"
proof -
  have "groupby_transform (home_team \<circ> row_game) (home_win \<circ> row_game)
          (\<lambda>x. rolling_mean 10 1 (shift1 x)) merged
      = groupby_transform (home_team \<circ> row_game) (home_win \<circ> row_game)
          (\<lambda>x. rolling_mean 10 1 (shift1 (map id x))) merged"
    by simp
  then show ?thesis
    using assms groupby_rolling_nth [of i merged "home_team \<circ> row_game" "home_win \<circ> row_game" id]
    by (simp add: home_last10_wins_def fillna_def groupby_transform_def spec_rolling_form_def
        prior_home_results_def Let_def)
qed

lemma away_last10_wins_nth:
  assumes "i < length merged"
  shows "away_last10_wins merged ! i = spec_rolling_form (prior_away_results merged i)"
  using assms
    groupby_rolling_nth [of i merged "away_team \<circ> row_game" "home_win \<circ> row_game" "\<lambda>v. 1 - v"]
  by (simp add: away_last10_wins_def fillna_def groupby_transform_def spec_rolling_form_def
      prior_away_results_def Let_def comp_def)

lemma prior_results_take:
  assumes "i < n"
  shows "prior_home_results (take n merged) i = prior_home_results merged i"
    and "prior_away_results (take n merged) i = prior_away_results merged i"
  using assms by (simp_all add: prior_home_results_def prior_away_results_def min_def)

text \<open>
  C1. The rolling-form features of the game at index \<open>i\<close> are the mean of the last 10
  results among that team's games strictly before \<open>i\<close> (the shifted window), so they do not
  change when the sequence is cut anywhere after game \<open>i\<close>; and they are exactly 0.5 when
  the team has no earlier game. No order of the rows is needed for this.
\<close>

theorem rolling_form_no_lookahead:
  assumes "i < n" and "n \<le> length merged"
  shows "home_last10_wins merged ! i = spec_rolling_form (prior_home_results merged i)
       \<and> away_last10_wins merged ! i = spec_rolling_form (prior_away_results merged i)
       \<and> home_last10_wins (take n merged) ! i = home_last10_wins merged ! i
       \<and> away_last10_wins (take n merged) ! i = away_last10_wins merged ! i
       \<and> (prior_home_results merged i = [] \<longrightarrow> home_last10_wins merged ! i = 1/2)
       \<and> (prior_away_results merged i = [] \<longrightarrow> away_last10_wins merged ! i = 1/2)"
proof -
  from assms have i: "i < length merged" and it: "i < length (take n merged)" by simp_all
  have home: "home_last10_wins merged ! i = spec_rolling_form (prior_home_results merged i)"
    by (rule home_last10_wins_nth [OF i])
  have away: "away_last10_wins merged ! i = spec_rolling_form (prior_away_results merged i)"
    by (rule away_last10_wins_nth [OF i])
  have "home_last10_wins (take n merged) ! i
      = spec_rolling_form (prior_home_results (take n merged) i)"
    by (rule home_last10_wins_nth [OF it])
  with home have home_cut: "home_last10_wins (take n merged) ! i = home_last10_wins merged ! i"
    by (simp add: prior_results_take [OF assms(1)])
  have "away_last10_wins (take n merged) ! i
      = spec_rolling_form (prior_away_results (take n merged) i)"
    by (rule away_last10_wins_nth [OF it])
  with away have away_cut: "away_last10_wins (take n merged) ! i = away_last10_wins merged ! i"
    by (simp add: prior_results_take [OF assms(1)])
  from home away home_cut away_cut show ?thesis
    by (simp add: spec_rolling_form_def)
qed

lemmas ex_evals = ex_rows_def ex_row_def ex_game_def prior_home_results_def
  prior_away_results_def spec_rolling_form_def mean_def home_win_def

text \<open>
  Three Lakers home games (won, lost, won): before the second the form is 1, and cutting
  the sequence after it changes nothing; the first has no earlier game and gets 0.5.
\<close>

theorem rolling_form_no_lookahead_witness:
  "home_last10_wins (take 2 ex_rows) ! 1 = home_last10_wins ex_rows ! 1
   \<and> home_last10_wins ex_rows ! 1 = 1
   \<and> home_last10_wins ex_rows ! 2 = 1/2
   \<and> away_last10_wins ex_rows ! 2 = 0
   \<and> home_last10_wins ex_rows ! 0 = 1/2
   \<and> away_last10_wins ex_rows ! 1 = 1/2"
proof -
  have len: "length ex_rows = 3" by (simp add: ex_rows_def)
  have a: "(1::nat) < 2" "(2::nat) \<le> length ex_rows"
    and b: "(2::nat) < 3" "(3::nat) \<le> length ex_rows"
    and c: "(0::nat) < 1" "(1::nat) \<le> length ex_rows"
    by (simp_all add: len)
  show ?thesis
    using rolling_form_no_lookahead [OF a] rolling_form_no_lookahead [OF b]
      rolling_form_no_lookahead [OF c]
    by (simp add: ex_evals)
qed

section \<open>Properties of the join\<close>

lemma filter_at_most_one:
  "length (filter P xs) \<le> 1 \<Longrightarrow>
     filter P xs = (case List.find P xs of None \<Rightarrow> [] | Some x \<Rightarrow> [x])"
proof (induction xs)
  case Nil
  then show ?case by simp
next
  case (Cons x xs)
  show ?case
  proof (cases "P x")
    case True
    with Cons.prems have "filter P xs = []" by simp
    with True show ?thesis by simp
  next
    case False
    with Cons show ?thesis by simp
  qed
qed

lemma merge_left_unique:
  assumes "\<forall>g\<in>set games_df. length (filter (on_keys g) odds_df) \<le> 1"
  shows "merge_left on_keys games_df odds_df
       = map (\<lambda>g. \<lparr>row_game = g, row_odds = List.find (on_keys g) odds_df\<rparr>) games_df"
  using assms
proof (induction games_df)
  case Nil
  then show ?case by (simp add: merge_left_def)
next
  case (Cons g gs)
  then have rest: "merge_left on_keys gs odds_df
       = map (\<lambda>g. \<lparr>row_game = g, row_odds = List.find (on_keys g) odds_df\<rparr>) gs"
    by simp
  from Cons.prems have "length (filter (on_keys g) odds_df) \<le> 1" by simp
  from filter_at_most_one [OF this]
  have "(case filter (on_keys g) odds_df of
           [] \<Rightarrow> [\<lparr>row_game = g, row_odds = None\<rparr>]
         | od # ods \<Rightarrow> map (\<lambda>od. \<lparr>row_game = g, row_odds = Some od\<rparr>) (od # ods))
      = [\<lparr>row_game = g, row_odds = List.find (on_keys g) odds_df\<rparr>]"
    by (simp split: option.splits)
  with rest show ?case by (simp add: merge_left_def)
qed

lemma merge_inner_unique:
  assumes "\<forall>g\<in>set games_df. length (filter (on_keys g) odds_df) \<le> 1"
  shows "merge_inner on_keys games_df odds_df
       = map (\<lambda>g. \<lparr>row_game = g, row_odds = List.find (on_keys g) odds_df\<rparr>)
           (filter (\<lambda>g. List.find (on_keys g) odds_df \<noteq> None) games_df)"
  using assms
proof (induction games_df)
  case Nil
  then show ?case by (simp add: merge_inner_def)
next
  case (Cons g gs)
  then have rest: "merge_inner on_keys gs odds_df
       = map (\<lambda>g. \<lparr>row_game = g, row_odds = List.find (on_keys g) odds_df\<rparr>)
           (filter (\<lambda>g. List.find (on_keys g) odds_df \<noteq> None) gs)"
    by simp
  from Cons.prems have "length (filter (on_keys g) odds_df) \<le> 1" by simp
  from filter_at_most_one [OF this]
  have "map (\<lambda>od. \<lparr>row_game = g, row_odds = Some od\<rparr>) (filter (on_keys g) odds_df)
      = (case List.find (on_keys g) odds_df of None \<Rightarrow> []
         | Some od \<Rightarrow> [\<lparr>row_game = g, row_odds = List.find (on_keys g) odds_df\<rparr>])"
    by (simp split: option.splits)
  with rest show ?case by (auto simp: merge_inner_def split: option.splits)
qed

lemma ex_keys:
  "keys_v3 ex_game ex_odds" "keys_v3 ex_game ex_odds2"
  "keys_v2 ex_game ex_odds" "keys_v2 ex_game ex_odds2"
  by (simp_all add: keys_v3_def keys_v2_def ex_game_def ex_odds_def ex_odds2_def
      home_team_clean_def away_team_clean_def map_team_name_def team_map_eval
      team_map_concrete_def str_evals)

text \<open>
  C3, as stated, fails: the join does no aggregation. A game whose key matches two odds
  rows appears twice in the result (inner join of V3 and left join of V2), and the inner
  join of V3 has no row for a game without odds.
\<close>

theorem join_duplicates_counterexample:
  "map row_game (merge_v3 [ex_game] [ex_odds, ex_odds2]) = [ex_game, ex_game]
   \<and> map row_game (merge_v2 [ex_game] [ex_odds, ex_odds2]) = [ex_game, ex_game]
   \<and> map row_odds (merge_v3 [ex_game] [ex_odds, ex_odds2]) = [Some ex_odds, Some ex_odds2]
   \<and> map row_game (merge_v3 [ex_game] []) = []"
  by (simp add: merge_v3_def merge_v2_def merge_inner_def merge_left_def ex_keys)

text \<open>
  C3, amended. When every game's key (season, resolved home, resolved away) matches at
  most one odds row, the left join of V2 has exactly one row per game, in game order,
  carrying the matching odds row if there is one; the inner join of V3 has exactly one
  row for each game with a matching odds row and none for the others.
\<close>

theorem join_one_row_per_game_if_unique:
  "((\<forall>g\<in>set games_df. length (filter (keys_v2 g) odds_df) \<le> 1) \<longrightarrow>
      merge_v2 games_df odds_df
        = map (\<lambda>g. \<lparr>row_game = g, row_odds = List.find (keys_v2 g) odds_df\<rparr>) games_df
      \<and> map row_game (merge_v2 games_df odds_df) = games_df)
   \<and> ((\<forall>g\<in>set games_df. length (filter (keys_v3 g) odds_df) \<le> 1) \<longrightarrow>
      merge_v3 games_df odds_df
        = map (\<lambda>g. \<lparr>row_game = g, row_odds = List.find (keys_v3 g) odds_df\<rparr>)
            (filter (\<lambda>g. List.find (keys_v3 g) odds_df \<noteq> None) games_df)
      \<and> map row_game (merge_v3 games_df odds_df)
        = filter (\<lambda>g. \<exists>od\<in>set odds_df. keys_v3 g od) games_df)"
proof (intro conjI impI)
  assume u: "\<forall>g\<in>set games_df. length (filter (keys_v2 g) odds_df) \<le> 1"
  show v2: "merge_v2 games_df odds_df
        = map (\<lambda>g. \<lparr>row_game = g, row_odds = List.find (keys_v2 g) odds_df\<rparr>) games_df"
    unfolding merge_v2_def by (rule merge_left_unique [OF u])
  show "map row_game (merge_v2 games_df odds_df) = games_df"
    by (simp add: v2 comp_def)
next
  assume u: "\<forall>g\<in>set games_df. length (filter (keys_v3 g) odds_df) \<le> 1"
  show v3: "merge_v3 games_df odds_df
        = map (\<lambda>g. \<lparr>row_game = g, row_odds = List.find (keys_v3 g) odds_df\<rparr>)
            (filter (\<lambda>g. List.find (keys_v3 g) odds_df \<noteq> None) games_df)"
    unfolding merge_v3_def by (rule merge_inner_unique [OF u])
  have "(List.find (keys_v3 g) odds_df \<noteq> None) = (\<exists>od\<in>set odds_df. keys_v3 g od)" for g
    by (auto simp: find_None_iff)
  then show "map row_game (merge_v3 games_df odds_df)
        = filter (\<lambda>g. \<exists>od\<in>set odds_df. keys_v3 g od) games_df"
    by (simp add: v3 comp_def)
qed

theorem join_one_row_per_game_if_unique_witness:
  "merge_v2 [ex_game] [ex_odds] = [\<lparr>row_game = ex_game, row_odds = Some ex_odds\<rparr>]
   \<and> merge_v3 [ex_game] [ex_odds] = [\<lparr>row_game = ex_game, row_odds = Some ex_odds\<rparr>]
   \<and> merge_v2 [ex_game] [] = [\<lparr>row_game = ex_game, row_odds = None\<rparr>]
   \<and> merge_v3 [ex_game] [] = []"
proof -
  have u2: "\<forall>g\<in>set [ex_game]. length (filter (keys_v2 g) [ex_odds]) \<le> 1"
    and u3: "\<forall>g\<in>set [ex_game]. length (filter (keys_v3 g) [ex_odds]) \<le> 1"
    and e2: "\<forall>g\<in>set [ex_game]. length (filter (keys_v2 g) []) \<le> 1"
    and e3: "\<forall>g\<in>set [ex_game]. length (filter (keys_v3 g) []) \<le> 1"
    by simp_all
  from u2 u3 e2 e3 show ?thesis
    using join_one_row_per_game_if_unique [of "[ex_game]" "[ex_odds]"]
      join_one_row_per_game_if_unique [of "[ex_game]" "[]"]
    by (simp add: ex_keys)
qed

section \<open>Properties of the temporal split\<close>

lemma temporal_split_eq:
  assumes "model_data \<noteq> []"
  shows "\<exists>split_date. quantile (4/5) (map (date \<circ> row_game) model_data) = Some split_date
           \<and> temporal_split model_data =
               (filter (\<lambda>r. date (row_game r) < split_date) model_data,
                filter (\<lambda>r. date (row_game r) \<ge> split_date) model_data)"
  using assms by (simp add: temporal_split_def quantile_def Let_def)

text \<open>
  C4. The split is by date, not random: with the cutoff the 0.8 quantile of the row
  dates, the training set is exactly the rows dated strictly before the cutoff and the
  test set exactly the rows dated at or after it. So every training date precedes every
  test date, no row is in both sets, and every row is in one of them.
\<close>

theorem temporal_split_is_temporal:
  "(model_data \<noteq> [] \<longrightarrow>
      (\<exists>split_date. quantile (4/5) (map (date \<circ> row_game) model_data) = Some split_date
         \<and> fst (temporal_split model_data)
             = filter (\<lambda>r. date (row_game r) < split_date) model_data
         \<and> snd (temporal_split model_data)
             = filter (\<lambda>r. date (row_game r) \<ge> split_date) model_data))
   \<and> (\<forall>a\<in>set (fst (temporal_split model_data)). \<forall>b\<in>set (snd (temporal_split model_data)).
         date (row_game a) < date (row_game b))
   \<and> set (fst (temporal_split model_data)) \<inter> set (snd (temporal_split model_data)) = {}
   \<and> set (fst (temporal_split model_data)) \<union> set (snd (temporal_split model_data))
       = set model_data
   \<and> length (fst (temporal_split model_data)) + length (snd (temporal_split model_data))
       = length model_data"
proof (cases "model_data = []")
  case True
  then show ?thesis by (simp add: temporal_split_def quantile_def)
next
  case False
  from temporal_split_eq [OF False] obtain split_date where
    q: "quantile (4/5) (map (date \<circ> row_game) model_data) = Some split_date" and
    s: "temporal_split model_data =
               (filter (\<lambda>r. date (row_game r) < split_date) model_data,
                filter (\<lambda>r. date (row_game r) \<ge> split_date) model_data)"
    by blast
  have len: "length (filter (\<lambda>r. date (row_game r) < split_date) model_data)
      + length (filter (\<lambda>r. date (row_game r) \<ge> split_date) model_data) = length model_data"
    using sum_length_filter_compl [of "\<lambda>r. date (row_game r) < split_date" model_data]
    by (simp add: not_less)
  show ?thesis
    using q len by (auto simp: s)
qed

text \<open>Five rows dated 3, 1, 5, 2, 4: the cutoff is 4.2, the test set is the row dated 5.\<close>

lemma sort5: "sort [3, 1, 5, 2, 4 :: real] = [1, 2, 3, 4, 5]"
  by simp

lemma ex_quantile: "quantile (4/5) [3, 1, 5, 2, 4] = Some (21/5)"
  by (simp add: quantile_def Let_def)

theorem temporal_split_is_temporal_witness:
  "map (date \<circ> row_game) (fst (temporal_split ex_data5)) = [3, 1, 2, 4]
   \<and> map (date \<circ> row_game) (snd (temporal_split ex_data5)) = [5]"
proof -
  have ne: "ex_data5 \<noteq> []" by (simp add: ex_data5_def)
  have q: "quantile (4/5) (map (date \<circ> row_game) ex_data5) = Some (21/5)"
    by (simp add: ex_data5_def game_on_def ex_quantile)
  from temporal_split_is_temporal [of ex_data5] ne obtain split_date where
    sd: "quantile (4/5) (map (date \<circ> row_game) ex_data5) = Some split_date" and
    tr: "fst (temporal_split ex_data5)
           = filter (\<lambda>r. date (row_game r) < split_date) ex_data5" and
    te: "snd (temporal_split ex_data5)
           = filter (\<lambda>r. date (row_game r) \<ge> split_date) ex_data5"
    by blast
  from sd q have "split_date = 21/5" by simp
  with tr te show ?thesis by (simp add: ex_data5_def game_on_def)
qed

section \<open>Properties of the training run\<close>

text \<open>The row-count check of \<open>run\<close>: below 1000 engineered rows nothing is fitted.\<close>

lemma run_insufficient:
  assumes "length (engineer_features_v3 games_df odds_df) < 1000"
  shows "run games_df odds_df = [Insufficient_samples (length (engineer_features_v3 games_df odds_df))]"
  using assms by (simp add: run_def Let_def)


lemma date_ex_row_on [simp]: "date (row_game (ex_row_on s d)) = d"
  by (simp add: ex_row_on_def game_on_def)


lemma season_game_on [simp]: "season (game_on s d) = s"
  by (simp add: game_on_def)















section \<open>Properties of artifact selection\<close>




























section \<open>Properties of the inference service\<close>

lemma getitem_not_http: "getitem m k \<noteq> Inl (HTTPException c d)"
  by (simp add: getitem_def split: option.splits)

lemma collect_not_http:
  assumes "\<And>x. f x \<noteq> Inl (HTTPException c d)"
  shows "collect f xs \<noteq> Inl (HTTPException c d)"
  using assms by (induction xs) (auto split: sum.splits)

lemma game_row_not_http: "game_row g \<noteq> Inl (HTTPException c d)"
proof (cases "getitem g ''features''")
  case (Inl e)
  with getitem_not_http [of g "''features''" c d] show ?thesis
    by (simp add: game_row_def)
next
  case (Inr fs)
  have "collect (getitem fs) feature_order \<noteq> Inl (HTTPException c d)"
    by (rule collect_not_http) (rule getitem_not_http)
  with Inr show ?thesis by (simp add: game_row_def)
qed

lemma predict_batch_loaded:
  assumes "model_type request \<in> dom (MODELS reg)"
  shows "snd (predict_batch reg request) = reg"
    and "fst (predict_batch reg request) \<noteq> Inl (HTTPException c d)"
proof -
  from assms obtain model where m: "MODELS reg (model_type request) = Some model" by auto
  show "snd (predict_batch reg request) = reg"
    using assms m
    by (simp add: predict_batch_def getitem_def Let_def split: option.splits sum.splits)
  have rows: "collect game_row (games request) \<noteq> Inl (HTTPException c d)"
    by (rule collect_not_http) (rule game_row_not_http)
  show "fst (predict_batch reg request) \<noteq> Inl (HTTPException c d)"
    using assms m rows
    by (auto simp: predict_batch_def getitem_def Let_def split: option.splits sum.splits)
qed

lemma predict_single_loaded:
  assumes "single_model_type request \<in> dom (MODELS reg)"
  shows "snd (predict_single reg request) = reg"
    and "fst (predict_single reg request) \<noteq> Inl (HTTPException c d)"
  using assms
  by (auto simp: predict_single_def getitem_def Let_def split: option.splits sum.splits)

text \<open>
  C8. A batch or single request whose \<open>model_type\<close> is not a key of \<open>MODELS\<close> is
  answered with the HTTP 400 exception "Model ... not found": no prediction is computed
  and the registry is left as it was (the handlers have no access to the artifact files,
  so nothing is loaded). A request whose family is loaded never gets an HTTPException.
\<close>

theorem unknown_family_is_http_400:
  "(model_type batch \<notin> dom (MODELS reg) \<longrightarrow>
      predict_batch reg batch
        = (Inl (HTTPException 400 (''Model '' @ model_type batch @ '' not found'')), reg))
   \<and> (single_model_type single \<notin> dom (MODELS reg) \<longrightarrow>
      predict_single reg single
        = (Inl (HTTPException 400 (''Model '' @ single_model_type single @ '' not found'')), reg))
   \<and> (model_type batch \<in> dom (MODELS reg) \<longrightarrow>
      (\<forall>c d. fst (predict_batch reg batch) \<noteq> Inl (HTTPException c d))
      \<and> snd (predict_batch reg batch) = reg)
   \<and> (single_model_type single \<in> dom (MODELS reg) \<longrightarrow>
      (\<forall>c d. fst (predict_single reg single) \<noteq> Inl (HTTPException c d))
      \<and> snd (predict_single reg single) = reg)"
  using predict_batch_loaded [of batch reg] predict_single_loaded [of single reg]
  by (simp add: predict_batch_def predict_single_def)

text \<open>
  With only the global family loaded, a request for \<open>'2025'\<close> gets the 400, a request
  for \<open>'global'\<close> does not.
\<close>

lemma ex_game_row: "game_row [''features'' \<mapsto> ex_features] = Inr ([0, 0, 0, 0, 0, 0, 0, 0, 0, 0, 0])"
  by (simp add: game_row_def getitem_def ex_features_def feature_order_def)

theorem unknown_family_is_http_400_witness:
  "predict_batch ex_registry \<lparr>model_type = ''2025'', games = [[''features'' \<mapsto> ex_features]]\<rparr>
     = (Inl (HTTPException 400 ''Model 2025 not found''), ex_registry)
   \<and> predict_single ex_registry \<lparr>single_model_type = ''2025'', features = [0, 0, 0, 0, 0, 0, 0, 0, 0, 0, 0]\<rparr>
     = (Inl (HTTPException 400 ''Model 2025 not found''), ex_registry)
   \<and> fst (predict_batch ex_registry
        \<lparr>model_type = ''global'', games = [[''features'' \<mapsto> ex_features]]\<rparr>)
     \<noteq> Inl (HTTPException 400 ''Model global not found'')
   \<and> fst (predict_single ex_registry \<lparr>single_model_type = ''global'', features = [0, 0, 0, 0, 0, 0, 0, 0, 0, 0, 0]\<rparr>)
     \<noteq> Inl (HTTPException 400 ''Model global not found'')"
proof -
  have no: "''2025'' \<notin> dom (MODELS ex_registry)" and yes: "''global'' \<in> dom (MODELS ex_registry)"
    by (simp_all add: ex_registry_def)
  show ?thesis
    using no yes
      unknown_family_is_http_400 [of "\<lparr>model_type = ''2025'', games = [[''features'' \<mapsto> ex_features]]\<rparr>"
        ex_registry "\<lparr>single_model_type = ''2025'', features = [0, 0, 0, 0, 0, 0, 0, 0, 0, 0, 0]\<rparr>"]
      unknown_family_is_http_400 [of "\<lparr>model_type = ''global'', games = [[''features'' \<mapsto> ex_features]]\<rparr>"
        ex_registry "\<lparr>single_model_type = ''global'', features = [0, 0, 0, 0, 0, 0, 0, 0, 0, 0, 0]\<rparr>"]
    by simp
qed

lemma ex_batch_response:
  "fst (predict_batch ex_registry
        \<lparr>model_type = ''global'', games = [[''features'' \<mapsto> ex_features]]\<rparr>)
   = Inr \<lparr>response_model_type = ''global'', predictions = [1], probabilities = [3/4],
          confidence = [1/2]\<rparr>"
  by (simp add: predict_batch_def ex_registry_def getitem_def ex_game_row ex_classifier_def)

end
